theory Spec2Isabelle
  imports Main "HOL-Library.AList" "HOL-Library.Word"
begin

unbundle bit_operations_syntax

section \<open>The repository state seen through the engine's handles\<close>

text \<open>
  \<^verbatim>\<open>Branch.cpp\<close> drives an external version-control engine through opaque handles
  (\<^verbatim>\<open>git_repository*\<close>, \<^verbatim>\<open>git_reference*\<close>, \<^verbatim>\<open>git_commit*\<close>, \<^verbatim>\<open>git_index*\<close>).
  The state behind a \<^verbatim>\<open>git_repository*\<close> is a record: the commits of the object
  database, the reference table, \<^verbatim>\<open>HEAD\<close>, the index and the working directory.
  Object ids are numbers; a tree is kept by its content (path and blob content),
  so a tree id and the tree it names coincide.
\<close>

type_synonym git_oid = nat
type_synonym path = string
type_synonym blob = string
type_synonym git_tree = "(path \<times> blob) list"

record git_commit =
  commit_tree :: git_tree
  commit_parents :: "git_oid list"
  commit_message :: string

text \<open>The two-bit stage field of an index entry (\<^verbatim>\<open>GIT_INDEX_ENTRY_STAGE\<close>).\<close>

datatype git_index_stage = STAGE_NORMAL | STAGE_ANCESTOR | STAGE_OURS | STAGE_THEIRS

record git_index_entry =
  entry_path :: path
  entry_stage :: git_index_stage
  entry_blob :: blob

type_synonym git_index = "git_index_entry list"

text \<open>\<^verbatim>\<open>HEAD\<close> is symbolic (it names a reference) or detached (it holds a commit id).\<close>

datatype head_target = Symbolic string | Detached git_oid

record repository =
  odb :: "(git_oid \<times> git_commit) list"
  refs :: "(string \<times> git_oid) list"
  HEAD :: head_target
  index :: git_index
  workdir :: git_tree

text \<open>
  A \<^verbatim>\<open>git_reference*\<close> is a snapshot of a direct reference: its full name and the
  object id it held when it was looked up.
\<close>

record git_reference =
  ref_name :: string
  ref_target :: git_oid

text \<open>
  The two exception classes \<^verbatim>\<open>Branch.cpp\<close> throws, with the literal part of the
  message (the engine's own \<^verbatim>\<open>git_error_last()->message\<close> suffix is left out).
  A method returns its value or the exception, together with the repository state
  it leaves behind: a \<^verbatim>\<open>throw\<close> undoes nothing.
\<close>

datatype exn = invalid_argument string | runtime_error string

section \<open>The engine calls\<close>

text \<open>
  Each engine call returns \<open>None\<close> where the C function returns a non-zero error
  code. The calls below follow the engine's documented contract on the state
  record.
\<close>

definition git_commit_lookup :: "repository \<Rightarrow> git_oid \<Rightarrow> git_oid option" where
  "git_commit_lookup r oid = (case map_of (odb r) oid of None \<Rightarrow> None | Some c \<Rightarrow> Some oid)"

text \<open>\<^verbatim>\<open>git_reference_peel(&commit, ref, GIT_OBJECT_COMMIT)\<close>: the commit the snapshot points at.\<close>

definition git_reference_peel :: "repository \<Rightarrow> git_reference option \<Rightarrow> git_oid option" where
  "git_reference_peel r ref =
     (case ref of None \<Rightarrow> None | Some rf \<Rightarrow> git_commit_lookup r (ref_target rf))"

definition git_reference_name :: "git_reference option \<Rightarrow> string option" where
  "git_reference_name ref = (case ref of None \<Rightarrow> None | Some rf \<Rightarrow> Some (ref_name rf))"

definition git_reference_is_branch :: "string \<Rightarrow> bool" where
  "git_reference_is_branch name = (take 11 name = ''refs/heads/'')"

text \<open>
  \<^verbatim>\<open>git_repository_set_head(repo, refname)\<close>: a reference that is a local branch
  becomes the symbolic target of \<^verbatim>\<open>HEAD\<close>; another existing reference detaches
  \<^verbatim>\<open>HEAD\<close> at its commit; a missing name is accepted only as an unborn local
  branch. Only \<^verbatim>\<open>HEAD\<close> is written.
\<close>

definition git_repository_set_head :: "repository \<Rightarrow> string option \<Rightarrow> repository option" where
  "git_repository_set_head r refname =
     (case refname of
        None \<Rightarrow> None
      | Some name \<Rightarrow>
          (case map_of (refs r) name of
             Some oid \<Rightarrow>
               (if git_reference_is_branch name then Some (r\<lparr>HEAD := Symbolic name\<rparr>)
                else (case git_commit_lookup r oid of
                        None \<Rightarrow> None
                      | Some c \<Rightarrow> Some (r\<lparr>HEAD := Detached c\<rparr>)))
           | None \<Rightarrow>
               (if git_reference_is_branch name then Some (r\<lparr>HEAD := Symbolic name\<rparr>)
                else None)))"

text \<open>
  \<^verbatim>\<open>git_repository_head(&ref, repo)\<close>: \<^verbatim>\<open>HEAD\<close> resolved to a direct reference;
  it fails on an unborn branch.
\<close>

definition git_repository_head :: "repository \<Rightarrow> git_reference option" where
  "git_repository_head r =
     (case HEAD r of
        Symbolic name \<Rightarrow>
          (case map_of (refs r) name of
             None \<Rightarrow> None
           | Some oid \<Rightarrow> Some \<lparr>ref_name = name, ref_target = oid\<rparr>)
      | Detached oid \<Rightarrow> Some \<lparr>ref_name = ''HEAD'', ref_target = oid\<rparr>)"

definition git_annotated_commit_lookup :: "repository \<Rightarrow> git_oid \<Rightarrow> git_oid option" where
  "git_annotated_commit_lookup r oid = git_commit_lookup r oid"

text \<open>Walking parent edges: is \<open>b\<close> reached from \<open>a\<close> in at most \<open>n\<close> steps?\<close>

definition parents_of :: "(git_oid \<times> git_commit) list \<Rightarrow> git_oid \<Rightarrow> git_oid list" where
  "parents_of db a = (case map_of db a of None \<Rightarrow> [] | Some c \<Rightarrow> commit_parents c)"

fun reaches :: "nat \<Rightarrow> (git_oid \<times> git_commit) list \<Rightarrow> git_oid \<Rightarrow> git_oid \<Rightarrow> bool" where
  "reaches 0 db a b = (a = b)"
| "reaches (Suc n) db a b = (a = b \<or> list_ex (\<lambda>p. reaches n db p b) (parents_of db a))"

definition git_graph_descendant_or_equal :: "repository \<Rightarrow> git_oid \<Rightarrow> git_oid \<Rightarrow> bool" where
  "git_graph_descendant_or_equal r a b = reaches (length (odb r)) (odb r) a b"

text \<open>The bits of \<^verbatim>\<open>git_merge_analysis_t\<close>.\<close>

definition GIT_MERGE_ANALYSIS_NONE :: "32 word" where "GIT_MERGE_ANALYSIS_NONE = 0"
definition GIT_MERGE_ANALYSIS_NORMAL :: "32 word" where "GIT_MERGE_ANALYSIS_NORMAL = 1"
definition GIT_MERGE_ANALYSIS_UP_TO_DATE :: "32 word" where "GIT_MERGE_ANALYSIS_UP_TO_DATE = 2"
definition GIT_MERGE_ANALYSIS_FASTFORWARD :: "32 word" where "GIT_MERGE_ANALYSIS_FASTFORWARD = 4"
definition GIT_MERGE_ANALYSIS_UNBORN :: "32 word" where "GIT_MERGE_ANALYSIS_UNBORN = 8"

text \<open>
  \<^verbatim>\<open>git_merge_analysis(&analysis, &preference, repo, &their_head, 1)\<close> compares
  the given commit with the commit of \<^verbatim>\<open>HEAD\<close> (not with any branch handle):
  an unborn \<^verbatim>\<open>HEAD\<close> gives \<^verbatim>\<open>FASTFORWARD | UNBORN\<close>; when the merge base is the
  given commit (it is \<^verbatim>\<open>HEAD\<close>'s commit or one of its ancestors) the answer is
  \<^verbatim>\<open>UP_TO_DATE\<close>; otherwise, when the merge base is \<^verbatim>\<open>HEAD\<close>'s commit (an
  ancestor of the given commit), \<^verbatim>\<open>FASTFORWARD | NORMAL\<close>; otherwise \<^verbatim>\<open>NORMAL\<close>.
\<close>

definition git_merge_analysis :: "repository \<Rightarrow> git_oid \<Rightarrow> 32 word option" where
  "git_merge_analysis r their_head =
     (case git_repository_head r of
        None \<Rightarrow> Some (GIT_MERGE_ANALYSIS_FASTFORWARD OR GIT_MERGE_ANALYSIS_UNBORN)
      | Some headRef \<Rightarrow>
          (case git_commit_lookup r (ref_target headRef) of
             None \<Rightarrow> None
           | Some ours \<Rightarrow>
               (if git_graph_descendant_or_equal r ours their_head
                then Some GIT_MERGE_ANALYSIS_UP_TO_DATE
                else if git_graph_descendant_or_equal r their_head ours
                then Some (GIT_MERGE_ANALYSIS_FASTFORWARD OR GIT_MERGE_ANALYSIS_NORMAL)
                else Some GIT_MERGE_ANALYSIS_NORMAL)))"

definition git_repository_index :: "repository \<Rightarrow> git_index option" where
  "git_repository_index r = Some (index r)"

definition git_index_entry_is_conflict :: "git_index_entry \<Rightarrow> bool" where
  "git_index_entry_is_conflict e = (entry_stage e \<noteq> STAGE_NORMAL)"

definition git_index_has_conflicts :: "git_index \<Rightarrow> bool" where
  "git_index_has_conflicts idx = list_ex git_index_entry_is_conflict idx"

text \<open>\<^verbatim>\<open>git_index_write_tree\<close> refuses an index with conflict entries.\<close>

definition git_index_write_tree :: "git_index \<Rightarrow> git_tree option" where
  "git_index_write_tree idx =
     (if git_index_has_conflicts idx then None
      else Some (map (\<lambda>e. (entry_path e, entry_blob e)) idx))"

definition git_tree_lookup :: "repository \<Rightarrow> git_tree \<Rightarrow> git_tree option" where
  "git_tree_lookup r tree_oid = Some tree_oid"

text \<open>A new commit gets an id no object of the database has.\<close>

definition new_oid :: "(git_oid \<times> git_commit) list \<Rightarrow> git_oid" where
  "new_oid db = Suc (foldr max (map fst db) 0)"

text \<open>
  \<^verbatim>\<open>git_commit_create_v(&id, repo, update_ref, author, committer, encoding, message, tree, n, parents...)\<close>
  stores a commit with the given tree and parents and makes \<^verbatim>\<open>update_ref\<close> point
  at it: \<^verbatim>\<open>"HEAD"\<close> is resolved to the branch it names, a detached \<^verbatim>\<open>HEAD\<close> is
  rewritten itself. Every parent must be a commit of the database, and when the
  reference exists its value must be the first parent.
\<close>

definition current_tip :: "repository \<Rightarrow> string \<Rightarrow> git_oid option" where
  "current_tip r update_ref =
     (if update_ref = ''HEAD'' then
        (case HEAD r of Symbolic name \<Rightarrow> map_of (refs r) name | Detached oid \<Rightarrow> Some oid)
      else map_of (refs r) update_ref)"

definition write_ref :: "repository \<Rightarrow> string \<Rightarrow> git_oid \<Rightarrow> repository" where
  "write_ref r update_ref oid =
     (if update_ref = ''HEAD'' then
        (case HEAD r of
           Symbolic name \<Rightarrow> r\<lparr>refs := AList.update name oid (refs r)\<rparr>
         | Detached _ \<Rightarrow> r\<lparr>HEAD := Detached oid\<rparr>)
      else r\<lparr>refs := AList.update update_ref oid (refs r)\<rparr>)"

definition git_commit_create_v ::
  "repository \<Rightarrow> string \<Rightarrow> string \<Rightarrow> git_tree \<Rightarrow> git_oid list \<Rightarrow> (git_oid \<times> repository) option" where
  "git_commit_create_v r update_ref message tree parents =
     (if list_ex (\<lambda>p. git_commit_lookup r p = None) parents then None
      else if (case current_tip r update_ref of
                 None \<Rightarrow> False
               | Some tip \<Rightarrow> (case parents of [] \<Rightarrow> True | p # _ \<Rightarrow> p \<noteq> tip)) then None
      else
        (let oid = new_oid (odb r);
             c = \<lparr>commit_tree = tree, commit_parents = parents, commit_message = message\<rparr>
         in Some (oid, write_ref (r\<lparr>odb := odb r @ [(oid, c)]\<rparr>) update_ref oid)))"

text \<open>
  The conflict iterator. \<^verbatim>\<open>git_index_conflict_next\<close> skips entries that are no
  conflict entries; at a conflict entry it reads the run of entries with the same
  path, hands out the ancestor, our and their entry of the run (a later entry of
  a stage replaces an earlier one; a side without an entry stays \<^verbatim>\<open>NULL\<close>),
  and advances by the number of conflict entries it read. \<open>None\<close> is
  \<^verbatim>\<open>GIT_ITEROVER\<close>.
\<close>

definition git_index_conflict_iterator_new :: "git_index \<Rightarrow> git_index option" where
  "git_index_conflict_iterator_new idx = Some idx"

definition stage_entry :: "git_index_stage \<Rightarrow> git_index_entry list \<Rightarrow> git_index_entry option" where
  "stage_entry s run = List.find (\<lambda>e. entry_stage e = s) (rev run)"

fun git_index_conflict_next ::
  "git_index \<Rightarrow>
   ((git_index_entry option \<times> git_index_entry option \<times> git_index_entry option) \<times> git_index) option" where
  "git_index_conflict_next [] = None"
| "git_index_conflict_next (e # es) =
     (if git_index_entry_is_conflict e then
        (let run = e # takeWhile (\<lambda>x. entry_path x = entry_path e) es;
             len = length (filter git_index_entry_is_conflict run)
         in Some ((stage_entry STAGE_ANCESTOR run, stage_entry STAGE_OURS run,
                   stage_entry STAGE_THEIRS run), drop len (e # es)))
      else git_index_conflict_next es)"

section \<open>The parts of the engine taken as parameters\<close>

text \<open>
  Two engine calls are not fixed here, and every method of \<^verbatim>\<open>Branch\<close> takes them
  as a parameter: \<^verbatim>\<open>git_merge(repo, nullptr, 0, nullptr, nullptr)\<close>, the merge the
  source asks for without naming any commit to merge, and
  \<^verbatim>\<open>git_checkout_head(repo, &opts)\<close> with the strategy \<^verbatim>\<open>GIT_CHECKOUT_SAFE\<close>.
  Either fails (\<open>None\<close>) or writes the index and the working directory; neither
  writes a reference, \<^verbatim>\<open>HEAD\<close> or a commit.
\<close>

record engine =
  git_merge :: "repository \<Rightarrow> (git_index \<times> git_tree) option"
  git_checkout_head :: "repository \<Rightarrow> (git_index \<times> git_tree) option"

definition write_index_workdir :: "repository \<Rightarrow> git_index \<times> git_tree \<Rightarrow> repository" where
  "write_index_workdir r iw = r\<lparr>index := fst iw, workdir := snd iw\<rparr>"

section \<open>Branch.cpp\<close>

text \<open>
  The handle: \<^verbatim>\<open>_branch\<close> (a \<^verbatim>\<open>git_reference*\<close>, possibly null) and
  \<^verbatim>\<open>_lastCommit\<close>, the commit object wrapped at construction (\<open>None\<close>: its
  \<^verbatim>\<open>_commit\<close> pointer is null). \<^verbatim>\<open>_repo\<close> is the repository state every method
  receives and returns.
\<close>

record Branch =
  branch_ref :: "git_reference option"
  lastCommit :: "git_oid option"

text \<open>\<^verbatim>\<open>Branch::Branch(git_reference*, Repository*)\<close> and \<^verbatim>\<open>Branch::create\<close>.\<close>

definition create :: "git_reference option \<Rightarrow> repository \<Rightarrow> exn + Branch" where
  "create branch r =
     (case git_reference_peel r branch of
        None \<Rightarrow> Inl (runtime_error ''Failed to peel the reference to commit object.'')
      | Some commit \<Rightarrow> Inr \<lparr>branch_ref = branch, lastCommit = Some commit\<rparr>)"

definition getLastCommit :: "Branch \<Rightarrow> git_oid option" where
  "getLastCommit this = lastCommit this"

definition checkout ::
  "engine \<Rightarrow> Branch \<Rightarrow> Branch option \<Rightarrow> repository \<Rightarrow> (exn + unit) \<times> repository" where
  "checkout E this targetBranch r =
     (case targetBranch of
        None \<Rightarrow> (Inl (invalid_argument ''Target branch is null.''), r)
      | Some tb \<Rightarrow>
          (case branch_ref tb of
             None \<Rightarrow> (Inl (invalid_argument ''Target branch reference is null.''), r)
           | Some branchRef \<Rightarrow>
               (case git_repository_set_head r (git_reference_name (Some branchRef)) of
                  None \<Rightarrow> (Inl (runtime_error ''Could not update HEAD to target branch: ''), r)
                | Some r1 \<Rightarrow>
                    (case git_checkout_head E r1 of
                       None \<Rightarrow> (Inl (runtime_error ''Checkout failed: ''), r1)
                     | Some iw \<Rightarrow> (Inr (), write_index_workdir r1 iw)))))"

definition performFastforward ::
  "engine \<Rightarrow> Branch \<Rightarrow> Branch option \<Rightarrow> repository \<Rightarrow> (exn + bool) \<times> repository" where
  "performFastforward E this targetBranch r =
     (case targetBranch of
        None \<Rightarrow> (Inl (invalid_argument ''Target branch is null.''), r)
      | Some tb \<Rightarrow>
          (case getLastCommit tb of
             None \<Rightarrow> (Inl (runtime_error ''Target branch last commit is null.''), r)
           | Some targetCommit \<Rightarrow>
               (case git_annotated_commit_lookup r targetCommit of
                  None \<Rightarrow>
                    (Inl (runtime_error ''Failed to lookup annotated commit for fast-forward.''), r)
                | Some annotatedTarget \<Rightarrow>
                    (case git_merge_analysis r annotatedTarget of
                       None \<Rightarrow> (Inl (runtime_error ''Merge analysis failed: ''), r)
                     | Some analysis \<Rightarrow>
                         (if analysis AND GIT_MERGE_ANALYSIS_FASTFORWARD \<noteq> 0 then
                            (case git_repository_set_head r (git_reference_name (branch_ref this)) of
                               None \<Rightarrow> (Inl (runtime_error ''Fast-forward failed: ''), r)
                             | Some r1 \<Rightarrow>
                                 (case git_checkout_head E r1 of
                                    None \<Rightarrow>
                                      (Inl (runtime_error ''Fast-forward checkout failed: ''), r1)
                                  | Some iw \<Rightarrow> (Inr True, write_index_workdir r1 iw)))
                          else (Inr False, r))))))"

definition executeMergeCommit ::
  "engine \<Rightarrow> Branch \<Rightarrow> repository \<Rightarrow> (exn + unit) \<times> repository" where
  "executeMergeCommit E this r =
     (case git_merge E r of
        None \<Rightarrow> (Inl (runtime_error ''Failed to prepare merge: ''), r)
      | Some iw \<Rightarrow>
          (let r1 = write_index_workdir r iw in
           (case git_repository_index r1 of
              None \<Rightarrow> (Inl (runtime_error ''Failed to get repository index: ''), r1)
            | Some idx \<Rightarrow>
                (if git_index_has_conflicts idx then
                   (Inl (runtime_error ''Merge conflicts detected.''), r1)
                 else
                   (case git_index_write_tree idx of
                      None \<Rightarrow> (Inl (runtime_error ''Failed to write tree: ''), r1)
                    | Some tree_oid \<Rightarrow>
                        (case git_tree_lookup r1 tree_oid of
                           None \<Rightarrow> (Inl (runtime_error ''Failed to lookup tree: ''), r1)
                         | Some tree \<Rightarrow>
                             (case (case git_repository_head r1 of
                                      None \<Rightarrow> None
                                    | Some headRef \<Rightarrow> git_commit_lookup r1 (ref_target headRef)) of
                                None \<Rightarrow> (Inl (runtime_error ''Failed to get HEAD commit.''), r1)
                              | Some parent \<Rightarrow>
                                  (case git_commit_create_v r1 ''HEAD''
                                          ''Merged branch via libgit2'' tree [parent] of
                                     None \<Rightarrow>
                                       (Inl (runtime_error ''Failed to create merge commit: ''), r1)
                                   | Some (commit_oid, r2) \<Rightarrow> (Inr (), r2)))))))))"

text \<open>
  The loop of \<^verbatim>\<open>getConflictingFiles\<close>: a conflict contributes the path of its our
  entry, and nothing when that entry is null. The iterator gets shorter at each
  step, so the loop ends.
\<close>

lemma git_index_conflict_next_shorter:
  "git_index_conflict_next it = Some (x, it') \<Longrightarrow> length it' < length it"
  by (induction it) (auto simp: Let_def split: if_splits)

function conflict_loop :: "git_index \<Rightarrow> string list \<Rightarrow> string list" where
  "conflict_loop conflictIter conflictingFiles =
     (case git_index_conflict_next conflictIter of
        None \<Rightarrow> conflictingFiles
      | Some ((ancestor, ours, theirs), conflictIter') \<Rightarrow>
          conflict_loop conflictIter'
            (case ours of
               None \<Rightarrow> conflictingFiles
             | Some e \<Rightarrow> conflictingFiles @ [entry_path e]))"
  by pat_completeness auto
termination
  by (relation "measure (\<lambda>(it, acc). length it)")
     (auto dest: git_index_conflict_next_shorter)

declare conflict_loop.simps [simp del]

definition getConflictingFiles :: "Branch \<Rightarrow> repository \<Rightarrow> (exn + string list) \<times> repository" where
  "getConflictingFiles this r =
     (case git_repository_index r of
        None \<Rightarrow> (Inl (runtime_error ''Failed to get repository index: ''), r)
      | Some idx \<Rightarrow>
          (case git_index_conflict_iterator_new idx of
             None \<Rightarrow> (Inl (runtime_error ''Failed to create conflict iterator: ''), r)
           | Some conflictIter \<Rightarrow> (Inr (conflict_loop conflictIter []), r)))"

text \<open>\<^verbatim>\<open>std::to_string\<close> of a \<^verbatim>\<open>size_t\<close>: the decimal digits.\<close>

function to_string :: "nat \<Rightarrow> string" where
  "to_string n =
     (if n < 10 then [''0123456789'' ! n]
      else to_string (n div 10) @ [''0123456789'' ! (n mod 10)])"
  by pat_completeness auto
termination
  by (relation "measure (\<lambda>n. n)") auto

declare to_string.simps [simp del]

definition executeMerge ::
  "engine \<Rightarrow> Branch \<Rightarrow> Branch option \<Rightarrow> repository \<Rightarrow> (exn + unit) \<times> repository" where
  "executeMerge E this targetBranch r =
     (case targetBranch of
        None \<Rightarrow> (Inl (invalid_argument ''Target branch is null.''), r)
      | Some tb \<Rightarrow>
          (case performFastforward E this targetBranch r of
             (Inl e, r1) \<Rightarrow> (Inl e, r1)
           | (Inr ff, r1) \<Rightarrow>
               (if ff then (Inr (), r1)
                else
                  (case executeMergeCommit E this r1 of
                     (Inl e, r2) \<Rightarrow> (Inl e, r2)
                   | (Inr u, r2) \<Rightarrow>
                       (case getConflictingFiles this r2 of
                          (Inl e, r3) \<Rightarrow> (Inl e, r3)
                        | (Inr conflicts, r3) \<Rightarrow>
                            (if conflicts \<noteq> [] then
                               (Inl (runtime_error
                                  (''Merge completed with conflicts. Files in conflict: '' @
                                   to_string (length conflicts))), r3)
                             else (Inr (), r3)))))))"

section \<open>A checkout engine after the specification\<close>

text \<open>
  \<^verbatim>\<open>git_checkout_head\<close> with \<^verbatim>\<open>GIT_CHECKOUT_SAFE\<close> is the external engine's code
  and is not part of the sources. The four definitions of this section follow
  the specification's Checkout Engine (section 4.3) instead; the tree that is
  checked out is the one of the commit \<^verbatim>\<open>HEAD\<close> resolves to.
\<close>

text \<open>
  Modelled from the spec: the condition of the \<^verbatim>\<open>DirtyWorkingTree\<close> failure of
  \<^verbatim>\<open>git_checkout_head\<close>, which is not in the sources: "a tracked file has local
  modifications not reflected in the Index's stage-0 entries". A tracked file is
  a path with a stage-0 entry; it is modified when the working directory does not
  hold the entry's content at that path.
\<close>

definition dirty_working_tree :: "repository \<Rightarrow> bool" where
  "dirty_working_tree r =
     list_ex (\<lambda>e. entry_stage e = STAGE_NORMAL \<and>
                  map_of (workdir r) (entry_path e) \<noteq> Some (entry_blob e)) (index r)"

text \<open>
  Modelled from the spec: the index \<^verbatim>\<open>git_checkout_head\<close> (not in the sources)
  leaves behind, "a fully clean (stage-0) state matching" the tree.
\<close>

definition clean_index :: "git_tree \<Rightarrow> git_index" where
  "clean_index t =
     map (\<lambda>(p, b). \<lparr>entry_path = p, entry_stage = STAGE_NORMAL, entry_blob = b\<rparr>) t"

text \<open>
  Modelled from the spec: the tree \<^verbatim>\<open>git_checkout_head\<close> (not in the sources)
  materializes, the one of the commit at \<^verbatim>\<open>HEAD\<close>.
\<close>

definition head_tree :: "repository \<Rightarrow> git_tree option" where
  "head_tree r =
     (case git_repository_head r of
        None \<Rightarrow> None
      | Some headRef \<Rightarrow>
          (case map_of (odb r) (ref_target headRef) of
             None \<Rightarrow> None
           | Some c \<Rightarrow> Some (commit_tree c)))"

text \<open>
  Modelled from the spec: \<^verbatim>\<open>git_checkout_head\<close> with \<^verbatim>\<open>GIT_CHECKOUT_SAFE\<close>, which
  is not in the sources, as the specification's \<^verbatim>\<open>checkoutTree\<close>: it "fails with
  \<^verbatim>\<open>DirtyWorkingTree\<close> if a tracked file has local modifications not reflected in
  the Index's stage-0 entries, unless a force flag is set" (the source sets
  none); otherwise it writes every entry of the tree to the working directory,
  removes every other path, and leaves the Index in the clean state matching the
  tree.
\<close>

definition checkoutTree_safe :: "repository \<Rightarrow> (git_index \<times> git_tree) option" where
  "checkoutTree_safe r =
     (if dirty_working_tree r then None
      else (case head_tree r of None \<Rightarrow> None | Some t \<Rightarrow> Some (clean_index t, t)))"

text \<open>
  An engine for the examples: it checks out as the specification says, and its
  merge of no commits succeeds and leaves the index and the working directory as
  they are.
\<close>

definition spec_engine :: engine where
  "spec_engine = \<lparr>git_merge = (\<lambda>r. Some (index r, workdir r)),
                  git_checkout_head = checkoutTree_safe\<rparr>"

section \<open>Example repositories\<close>

text \<open>
  The base commit holds \<^verbatim>\<open>f.txt\<close> with content \<^verbatim>\<open>x\<close>; one commit on top of it
  adds \<^verbatim>\<open>g.txt\<close>, another changes \<^verbatim>\<open>f.txt\<close> to \<^verbatim>\<open>z\<close>, a third changes it to
  \<^verbatim>\<open>w\<close>.
\<close>

definition commit_base :: git_commit where
  "commit_base = \<lparr>commit_tree = [(''f.txt'', ''x'')], commit_parents = [],
                   commit_message = ''base''\<rparr>"

definition commit_add_g :: git_commit where
  "commit_add_g = \<lparr>commit_tree = [(''f.txt'', ''x''), (''g.txt'', ''y'')], commit_parents = [0],
                    commit_message = ''add g''\<rparr>"

definition commit_f_z :: git_commit where
  "commit_f_z = \<lparr>commit_tree = [(''f.txt'', ''z'')], commit_parents = [0],
                  commit_message = ''f is z''\<rparr>"

definition commit_f_w :: git_commit where
  "commit_f_w = \<lparr>commit_tree = [(''f.txt'', ''w'')], commit_parents = [0],
                  commit_message = ''f is w''\<rparr>"

definition handle :: "string \<Rightarrow> git_oid \<Rightarrow> Branch" where
  "handle name oid =
     \<lparr>branch_ref = Some \<lparr>ref_name = name, ref_target = oid\<rparr>, lastCommit = Some oid\<rparr>"

text \<open>
  Disjoint edits: \<^verbatim>\<open>main\<close> is at commit 1 (adds \<^verbatim>\<open>g.txt\<close>), \<^verbatim>\<open>feature\<close> at
  commit 2 (changes \<^verbatim>\<open>f.txt\<close>), both on top of commit 0; \<^verbatim>\<open>main\<close> is checked out.
\<close>

definition diverged_repo :: repository where
  "diverged_repo =
     \<lparr>odb = [(0, commit_base), (1, commit_add_g), (2, commit_f_z)],
      refs = [(''refs/heads/main'', 1), (''refs/heads/feature'', 2)],
      HEAD = Symbolic ''refs/heads/main'',
      index = clean_index (commit_tree commit_add_g),
      workdir = commit_tree commit_add_g\<rparr>"

text \<open>\<^verbatim>\<open>main\<close> (checked out) is at commit 0, \<^verbatim>\<open>feature\<close> one commit ahead of it.\<close>

definition behind_repo :: repository where
  "behind_repo =
     \<lparr>odb = [(0, commit_base), (1, commit_add_g)],
      refs = [(''refs/heads/main'', 0), (''refs/heads/feature'', 1)],
      HEAD = Symbolic ''refs/heads/main'',
      index = clean_index (commit_tree commit_base),
      workdir = commit_tree commit_base\<rparr>"

text \<open>\<^verbatim>\<open>main\<close> (checked out) is at commit 1, \<^verbatim>\<open>feature\<close> at its parent, commit 0.\<close>

definition ahead_repo :: repository where
  "ahead_repo =
     \<lparr>odb = [(0, commit_base), (1, commit_add_g)],
      refs = [(''refs/heads/main'', 1), (''refs/heads/feature'', 0)],
      HEAD = Symbolic ''refs/heads/main'',
      index = clean_index (commit_tree commit_add_g),
      workdir = commit_tree commit_add_g\<rparr>"

text \<open>
  Both sides changed \<^verbatim>\<open>f.txt\<close>: \<^verbatim>\<open>main\<close> (checked out) to \<^verbatim>\<open>z\<close>, \<^verbatim>\<open>feature\<close>
  to \<^verbatim>\<open>w\<close>. An engine whose merge finds this conflict writes the three stage
  entries of \<^verbatim>\<open>f.txt\<close> into the index.
\<close>

definition conflict_repo :: repository where
  "conflict_repo =
     \<lparr>odb = [(0, commit_base), (1, commit_f_z), (2, commit_f_w)],
      refs = [(''refs/heads/main'', 1), (''refs/heads/feature'', 2)],
      HEAD = Symbolic ''refs/heads/main'',
      index = clean_index (commit_tree commit_f_z),
      workdir = commit_tree commit_f_z\<rparr>"

definition conflict_index :: git_index where
  "conflict_index =
     [\<lparr>entry_path = ''f.txt'', entry_stage = STAGE_ANCESTOR, entry_blob = ''x''\<rparr>,
      \<lparr>entry_path = ''f.txt'', entry_stage = STAGE_OURS, entry_blob = ''z''\<rparr>,
      \<lparr>entry_path = ''f.txt'', entry_stage = STAGE_THEIRS, entry_blob = ''w''\<rparr>]"

definition conflict_engine :: engine where
  "conflict_engine = \<lparr>git_merge = (\<lambda>r. Some (conflict_index, workdir r)),
                      git_checkout_head = checkoutTree_safe\<rparr>"

text \<open>
  A conflict where our side deleted \<^verbatim>\<open>f.txt\<close> and their side changed it: the
  index holds the ancestor and their entry, and no entry of ours.
\<close>

definition deleted_by_us_index :: git_index where
  "deleted_by_us_index =
     [\<lparr>entry_path = ''f.txt'', entry_stage = STAGE_ANCESTOR, entry_blob = ''x''\<rparr>,
      \<lparr>entry_path = ''f.txt'', entry_stage = STAGE_THEIRS, entry_blob = ''w''\<rparr>]"

text \<open>
  The repository of that conflict: \<^verbatim>\<open>main\<close> (checked out) is at commit 1, which
  deleted \<^verbatim>\<open>f.txt\<close>; \<^verbatim>\<open>feature\<close> is at commit 2, which changed it to \<^verbatim>\<open>w\<close>.
  An engine whose merge finds the conflict writes the two entries into the index
  and their version of the file into the working directory.
\<close>

definition commit_delete_f :: git_commit where
  "commit_delete_f = \<lparr>commit_tree = [], commit_parents = [0], commit_message = ''delete f''\<rparr>"

definition deleted_by_us_repo :: repository where
  "deleted_by_us_repo =
     \<lparr>odb = [(0, commit_base), (1, commit_delete_f), (2, commit_f_w)],
      refs = [(''refs/heads/main'', 1), (''refs/heads/feature'', 2)],
      HEAD = Symbolic ''refs/heads/main'',
      index = clean_index (commit_tree commit_delete_f),
      workdir = commit_tree commit_delete_f\<rparr>"

definition deleted_by_us_engine :: engine where
  "deleted_by_us_engine =
     \<lparr>git_merge = (\<lambda>r. Some (deleted_by_us_index, [(''f.txt'', ''w'')])),
      git_checkout_head = checkoutTree_safe\<rparr>"

text \<open>
  \<^verbatim>\<open>main\<close> is checked out with a local change to the tracked file \<^verbatim>\<open>f.txt\<close>
  that the index does not hold.
\<close>

definition dirty_repo :: repository where
  "dirty_repo = diverged_repo\<lparr>workdir := [(''f.txt'', ''local''), (''g.txt'', ''y'')]\<rparr>"

section \<open>Notions the properties are stated with\<close>

text \<open>The paths of an index that have a conflict entry of any stage.\<close>

definition conflict_paths :: "git_index \<Rightarrow> string set" where
  "conflict_paths idx = set (map entry_path (filter git_index_entry_is_conflict idx))"

text \<open>The paths of an index that have an entry of our side (stage 2).\<close>

definition ours_paths :: "git_index \<Rightarrow> string set" where
  "ours_paths idx = set (map entry_path (filter (\<lambda>e. entry_stage e = STAGE_OURS) idx))"

text \<open>The commit a branch handle's reference points at in the current reference table.\<close>

definition branch_tip :: "repository \<Rightarrow> Branch \<Rightarrow> git_oid option" where
  "branch_tip r b = (case branch_ref b of None \<Rightarrow> None | Some rf \<Rightarrow> map_of (refs r) (ref_name rf))"

section \<open>Properties\<close>

subsection \<open>What the calls and the methods leave untouched\<close>

lemma git_repository_set_head_frame:
  "git_repository_set_head r n = Some r1 \<Longrightarrow>
     odb r1 = odb r \<and> refs r1 = refs r \<and> index r1 = index r \<and> workdir r1 = workdir r"
  by (auto simp: git_repository_set_head_def split: option.splits if_splits)

lemma write_index_workdir_frame [simp]:
  "odb (write_index_workdir r iw) = odb r"
  "refs (write_index_workdir r iw) = refs r"
  "HEAD (write_index_workdir r iw) = HEAD r"
  "index (write_index_workdir r iw) = fst iw"
  "workdir (write_index_workdir r iw) = snd iw"
  by (simp_all add: write_index_workdir_def)

lemma performFastforward_False:
  "performFastforward E this target r = (Inr False, r1) \<Longrightarrow> r1 = r"
  by (auto simp: performFastforward_def split: option.splits if_splits)

lemma performFastforward_frame:
  "odb (snd (performFastforward E this target r)) = odb r \<and>
   refs (snd (performFastforward E this target r)) = refs r"
  by (auto simp: performFastforward_def dest: git_repository_set_head_frame split: option.splits if_splits)

lemma git_repository_head_write_index_workdir [simp]:
  "git_repository_head (write_index_workdir r iw) = git_repository_head r"
  by (simp add: git_repository_head_def split: head_target.splits)

lemma git_commit_lookup_write_index_workdir [simp]:
  "git_commit_lookup (write_index_workdir r iw) = git_commit_lookup r"
  by (simp add: git_commit_lookup_def fun_eq_iff)

lemma current_tip_write_ref:
  "current_tip (write_ref r ''HEAD'' oid) ''HEAD'' = Some oid"
  by (simp add: current_tip_def write_ref_def update_conv' split: head_target.splits)

lemma executeMergeCommit_Inr:
  assumes "executeMergeCommit E this r = (Inr u, r')"
  shows "\<exists>iw headRef.
           git_merge E r = Some iw \<and> \<not> git_index_has_conflicts (fst iw) \<and>
           git_repository_head r = Some headRef \<and>
           r' = write_ref ((write_index_workdir r iw)\<lparr>odb := odb r @
                  [(new_oid (odb r),
                    \<lparr>commit_tree = map (\<lambda>e. (entry_path e, entry_blob e)) (fst iw),
                     commit_parents = [ref_target headRef],
                     commit_message = ''Merged branch via libgit2''\<rparr>)]\<rparr>) ''HEAD'' (new_oid (odb r))"
  using assms
  by (auto simp: executeMergeCommit_def Let_def git_repository_index_def git_index_write_tree_def
      git_tree_lookup_def git_commit_create_v_def git_commit_lookup_def
      split: option.splits if_splits prod.splits)

lemma git_index_conflict_next_None:
  "\<not> git_index_has_conflicts it \<Longrightarrow> git_index_conflict_next it = None"
  by (induction it) (auto simp: git_index_has_conflicts_def)

lemma conflict_loop_None:
  "git_index_conflict_next it = None \<Longrightarrow> conflict_loop it acc = acc"
  by (subst conflict_loop.simps) simp

lemma getConflictingFiles_clean:
  "\<not> git_index_has_conflicts (index r) \<Longrightarrow> getConflictingFiles this r = (Inr [], r)"
  by (simp add: getConflictingFiles_def git_repository_index_def
      git_index_conflict_iterator_new_def git_index_conflict_next_None conflict_loop_None)

lemma index_write_ref [simp]: "index (write_ref r n oid) = index r"
  by (simp add: write_ref_def split: head_target.splits)

lemma executeMergeCommit_clean:
  assumes "executeMergeCommit E this r = (Inr u, r')"
  shows "\<not> git_index_has_conflicts (index r')"
  using executeMergeCommit_Inr [OF assms] by auto

lemma ours_paths_image:
  "ours_paths idx = entry_path ` {e \<in> set idx. entry_stage e = STAGE_OURS}"
  by (auto simp: ours_paths_def)

lemma find_Some_in: "List.find P xs = Some x \<Longrightarrow> x \<in> set xs \<and> P x"
  by (induction xs) (auto split: if_splits)

lemma take_run_subset:
  assumes "n \<le> Suc (length (takeWhile P es))"
  shows "set (take n (e # es)) \<subseteq> set (e # takeWhile P es)"
proof -
  have "e # takeWhile P es = take (Suc (length (takeWhile P es))) (e # es)"
    by (simp add: takeWhile_eq_take [symmetric])
  then show ?thesis
    using assms by (metis set_take_subset_set_take)
qed

lemma git_index_conflict_next_ours:
  "git_index_conflict_next it = Some ((a, ours, t), it') \<Longrightarrow>
     ours_paths it = (case ours of None \<Rightarrow> {} | Some x \<Rightarrow> {entry_path x}) \<union> ours_paths it'"
proof (induction it)
  case Nil
  then show ?case by simp
next
  case (Cons e es)
  show ?case
  proof (cases "git_index_entry_is_conflict e")
    case False
    then have "ours_paths (e # es) = ours_paths es"
      by (auto simp: ours_paths_image git_index_entry_is_conflict_def)
    with Cons False show ?thesis by simp
  next
    case True
    define run where "run = e # takeWhile (\<lambda>x. entry_path x = entry_path e) es"
    define len where "len = length (filter git_index_entry_is_conflict run)"
    from Cons.prems True have ours: "ours = stage_entry STAGE_OURS run"
      and it': "it' = drop len (e # es)"
      by (simp_all add: Let_def run_def len_def)
    have len: "len \<le> Suc (length (takeWhile (\<lambda>x. entry_path x = entry_path e) es))"
      unfolding len_def run_def using length_filter_le [of git_index_entry_is_conflict run]
      by (metis length_Cons length_filter_le)
    have run_path: "\<And>x. x \<in> set run \<Longrightarrow> entry_path x = entry_path e"
      by (auto simp: run_def dest: set_takeWhileD)
    have run_sub: "set run \<subseteq> set (e # es)"
      by (auto simp: run_def dest: set_takeWhileD)
    have taken: "set (take len (e # es)) \<subseteq> set run"
      unfolding run_def by (rule take_run_subset [OF len])
    have split: "set (e # es) = set (take len (e # es)) \<union> set it'"
      unfolding it' by (metis append_take_drop_id set_append)
    show ?thesis
    proof (cases ours)
      case None
      then have no: "\<And>x. x \<in> set run \<Longrightarrow> entry_stage x \<noteq> STAGE_OURS"
        using ours by (auto simp: stage_entry_def find_None_iff)
      have "ours_paths (e # es) = ours_paths it'"
        unfolding ours_paths_image using split taken no by auto
      with None show ?thesis by simp
    next
      case (Some x)
      then have x: "x \<in> set run" "entry_stage x = STAGE_OURS"
        using ours find_Some_in [of "\<lambda>e. entry_stage e = STAGE_OURS" "rev run" x]
        by (auto simp: stage_entry_def)
      have "ours_paths (e # es) = {entry_path x} \<union> ours_paths it'"
      proof
        show "ours_paths (e # es) \<subseteq> {entry_path x} \<union> ours_paths it'"
        proof
          fix p assume "p \<in> ours_paths (e # es)"
          then obtain y where y: "y \<in> set (e # es)" "entry_stage y = STAGE_OURS" "p = entry_path y"
            by (auto simp: ours_paths_image)
          from y(1) split consider "y \<in> set (take len (e # es))" | "y \<in> set it'" by blast
          then show "p \<in> {entry_path x} \<union> ours_paths it'"
          proof cases
            case 1
            with taken have "y \<in> set run" by blast
            with run_path x(1) y(3) show ?thesis by simp
          next
            case 2
            with y show ?thesis by (auto simp: ours_paths_image)
          qed
        qed
        show "{entry_path x} \<union> ours_paths it' \<subseteq> ours_paths (e # es)"
          using x run_sub split by (auto simp: ours_paths_image)
      qed
      with Some show ?thesis by simp
    qed
  qed
qed

lemma git_index_conflict_next_None_ours:
  "git_index_conflict_next it = None \<Longrightarrow> ours_paths it = {}"
proof (induction it)
  case Nil
  then show ?case by (simp add: ours_paths_image)
next
  case (Cons e es)
  then have "\<not> git_index_entry_is_conflict e" and "git_index_conflict_next es = None"
    by (auto simp: Let_def split: if_splits)
  with Cons.IH show ?case
    by (auto simp: ours_paths_image git_index_entry_is_conflict_def)
qed

lemma conflict_loop_set:
  "set (conflict_loop it acc) = set acc \<union> ours_paths it"
proof (induction it acc rule: conflict_loop.induct)
  case (1 conflictIter conflictingFiles)
  show ?case
  proof (cases "git_index_conflict_next conflictIter")
    case None
    with git_index_conflict_next_None_ours [of conflictIter] show ?thesis by (simp add: conflict_loop_None)
  next
    case (Some res)
    obtain a ours t it' where res: "res = ((a, ours, t), it')" by (cases res) auto
    note IH = "1.IH" [OF Some [unfolded res] refl refl refl]
    from Some res have "conflict_loop conflictIter conflictingFiles =
        conflict_loop it' (case ours of None \<Rightarrow> conflictingFiles | Some e \<Rightarrow> conflictingFiles @ [entry_path e])"
      by (subst conflict_loop.simps) simp
    then show ?thesis
      using IH git_index_conflict_next_ours [OF Some [unfolded res]]
      by (auto split: option.splits)
  qed
qed

lemma executeMergeCommit_Inl:
  assumes "executeMergeCommit E this r = (Inl e, r')"
  shows "odb r' = odb r \<and> refs r' = refs r \<and> HEAD r' = HEAD r"
  using assms
  by (auto simp: executeMergeCommit_def Let_def git_repository_index_def
      split: option.splits if_splits prod.splits)

lemma odb_write_ref [simp]: "odb (write_ref r n oid) = odb r"
  by (simp add: write_ref_def split: head_target.splits)

lemma executeMergeCommit_odb:
  "odb (snd (executeMergeCommit E this r)) = odb r \<or>
   (\<exists>c. length (commit_parents c) = 1 \<and>
        odb (snd (executeMergeCommit E this r)) = odb r @ [(new_oid (odb r), c)])"
proof (cases "executeMergeCommit E this r")
  case (Pair res r')
  show ?thesis
  proof (cases res)
    case (Inl e)
    with Pair executeMergeCommit_Inl [of E this r e r'] show ?thesis by simp
  next
    case (Inr u)
    with Pair executeMergeCommit_Inr [of E this r u r'] show ?thesis by auto
  qed
qed

lemma executeMerge_cases:
  "executeMerge E this (Some tb) r =
     (case performFastforward E this (Some tb) r of
        (Inl e, r1) \<Rightarrow> (Inl e, r1)
      | (Inr True, r1) \<Rightarrow> (Inr (), r1)
      | (Inr False, r1) \<Rightarrow>
          (case executeMergeCommit E this r of
             (Inl e, r2) \<Rightarrow> (Inl e, r2)
           | (Inr u, r2) \<Rightarrow> (Inr (), r2)))"
proof (cases "performFastforward E this (Some tb) r")
  case (Pair res r1)
  show ?thesis
  proof (cases res)
    case (Inl e)
    with Pair show ?thesis by (simp add: executeMerge_def)
  next
    case (Inr ff)
    show ?thesis
    proof (cases ff)
      case True
      with Pair Inr show ?thesis by (simp add: executeMerge_def)
    next
      case False
      with Pair Inr have r1: "r1 = r" by (auto dest: performFastforward_False)
      show ?thesis
      proof (cases "executeMergeCommit E this r")
        case (Pair res2 r2)
        show ?thesis
        proof (cases res2)
          case (Inl e)
          with Pair \<open>performFastforward E this (Some tb) r = (res, r1)\<close> Inr False r1
          show ?thesis by (simp add: executeMerge_def)
        next
          case (Inr u)
          with Pair have "getConflictingFiles this r2 = (Inr [], r2)"
            using executeMergeCommit_clean getConflictingFiles_clean by blast
          with Pair \<open>performFastforward E this (Some tb) r = (res, r1)\<close> \<open>res = Inr ff\<close> Inr False r1
          show ?thesis by (simp add: executeMerge_def)
        qed
      qed
    qed
  qed
qed

lemma executeMerge_odb:
  "odb (snd (executeMerge E this target r)) = odb r \<or>
   (\<exists>c. length (commit_parents c) = 1 \<and>
        odb (snd (executeMerge E this target r)) = odb r @ [(new_oid (odb r), c)])"
proof (cases target)
  case None
  then show ?thesis by (simp add: executeMerge_def)
next
  case (Some tb)
  show ?thesis
    using performFastforward_frame [of E this "Some tb" r] executeMergeCommit_odb [of E this r]
    unfolding Some executeMerge_cases
    by (auto split: prod.splits sum.splits bool.splits)
qed

lemmas call_defs =
  git_commit_lookup_def git_reference_peel_def git_reference_name_def git_reference_is_branch_def
  git_repository_set_head_def git_repository_head_def git_annotated_commit_lookup_def
  parents_of_def git_graph_descendant_or_equal_def git_merge_analysis_def
  GIT_MERGE_ANALYSIS_NORMAL_def GIT_MERGE_ANALYSIS_UP_TO_DATE_def
  GIT_MERGE_ANALYSIS_FASTFORWARD_def GIT_MERGE_ANALYSIS_UNBORN_def
  git_repository_index_def git_index_entry_is_conflict_def git_index_has_conflicts_def
  git_index_write_tree_def git_tree_lookup_def new_oid_def current_tip_def write_ref_def
  git_commit_create_v_def git_index_conflict_iterator_new_def stage_entry_def
  write_index_workdir_def

lemmas example_defs =
  commit_base_def commit_add_g_def commit_f_z_def commit_f_w_def handle_def
  diverged_repo_def behind_repo_def ahead_repo_def conflict_repo_def conflict_index_def
  conflict_engine_def deleted_by_us_index_def dirty_repo_def spec_engine_def
  dirty_working_tree_def clean_index_def head_tree_def checkoutTree_safe_def

lemma diverged_ff:
  "performFastforward E (handle ''refs/heads/main'' 1) (Some (handle ''refs/heads/feature'' 2)) diverged_repo
     = (Inr False, diverged_repo)"
  by (simp add: performFastforward_def getLastCommit_def call_defs example_defs)

lemma ahead_ff:
  "performFastforward E (handle ''refs/heads/main'' 1) (Some (handle ''refs/heads/feature'' 0)) ahead_repo
     = (Inr False, ahead_repo)"
  by (simp add: performFastforward_def getLastCommit_def call_defs example_defs)

lemma ahead_ff_self:
  "performFastforward E (handle ''refs/heads/main'' 1) (Some (handle ''refs/heads/main'' 1)) ahead_repo
     = (Inr False, ahead_repo)"
  by (simp add: performFastforward_def getLastCommit_def call_defs example_defs)

lemma git_repository_set_head_branch:
  "git_repository_set_head r (Some name) = Some r1 \<Longrightarrow> git_reference_is_branch name \<Longrightarrow>
     HEAD r1 = Symbolic name"
  by (auto simp: git_repository_set_head_def split: option.splits)

lemma performFastforward_no_report:
  "performFastforward E this target r = (Inl e, r1) \<Longrightarrow>
     e \<noteq> runtime_error (''Merge completed with conflicts. Files in conflict: '' @ s)"
  by (auto simp: performFastforward_def split: option.splits if_splits)

lemma executeMergeCommit_no_report:
  "executeMergeCommit E this r = (Inl e, r1) \<Longrightarrow>
     e \<noteq> runtime_error (''Merge completed with conflicts. Files in conflict: '' @ s)"
  by (auto simp: executeMergeCommit_def Let_def split: option.splits if_splits prod.splits)

lemma executeMerge_no_report:
  assumes "executeMerge E this target r = (Inl e, r1)"
  shows "e \<noteq> runtime_error (''Merge completed with conflicts. Files in conflict: '' @ s)"
proof (cases target)
  case None
  with assms show ?thesis by (auto simp: executeMerge_def)
next
  case (Some tb)
  show ?thesis
  proof (cases "performFastforward E this (Some tb) r")
    case (Pair res r2)
    show ?thesis
    proof (cases res)
      case (Inl e')
      with Pair assms Some have "e = e'" by (simp add: executeMerge_cases)
      with performFastforward_no_report [of E this "Some tb" r e' r2 s] Pair Inl
      show ?thesis by simp
    next
      case (Inr ff)
      show ?thesis
      proof (cases ff)
        case True
        with Pair Inr assms Some show ?thesis by (simp add: executeMerge_cases)
      next
        case False
        with Pair Inr assms Some obtain r3 where "executeMergeCommit E this r = (Inl e, r3)"
          by (auto simp: executeMerge_cases split: prod.splits sum.splits)
        from executeMergeCommit_no_report [OF this] show ?thesis .
      qed
    qed
  qed
qed

subsection \<open>Claim C1: the merge commit has one parent\<close>

text \<open>
  Claim C1 says that merging two branches with disjoint edits creates a commit
  whose parents are the two tips. In the repository with \<^verbatim>\<open>main\<close> at commit 1 and
  \<^verbatim>\<open>feature\<close> at commit 2, \<^verbatim>\<open>executeMerge\<close> leaves no commit with the parents
  \<open>[1, 2]\<close> in the object database, whatever the engine's merge and checkout do:
  \<^verbatim>\<open>executeMergeCommit\<close> never receives the target branch and passes one parent
  to \<^verbatim>\<open>git_commit_create_v\<close>. With an engine whose merge of no commits succeeds,
  the commit it creates has the single parent 1 and the tree of \<^verbatim>\<open>main\<close>: the
  edit of \<^verbatim>\<open>feature\<close> is not in it.
\<close>

theorem diverged_merge_single_parent:
  "\<not> list_ex (\<lambda>(oid, c). commit_parents c = [1, 2])
       (odb (snd (executeMerge E (handle ''refs/heads/main'' 1)
                    (Some (handle ''refs/heads/feature'' 2)) diverged_repo)))
   \<and> executeMerge spec_engine (handle ''refs/heads/main'' 1)
        (Some (handle ''refs/heads/feature'' 2)) diverged_repo =
      (Inr (), diverged_repo
         \<lparr>odb := odb diverged_repo @
            [(3, \<lparr>commit_tree = [(''f.txt'', ''x''), (''g.txt'', ''y'')], commit_parents = [1],
                  commit_message = ''Merged branch via libgit2''\<rparr>)],
          refs := [(''refs/heads/main'', 3), (''refs/heads/feature'', 2)]\<rparr>)"
proof
  let ?r = "snd (executeMerge E (handle ''refs/heads/main'' 1)
                    (Some (handle ''refs/heads/feature'' 2)) diverged_repo)"
  have "odb ?r = odb diverged_repo \<or>
        (\<exists>c. length (commit_parents c) = 1 \<and> odb ?r = odb diverged_repo @ [(new_oid (odb diverged_repo), c)])"
    by (rule executeMerge_odb)
  then show "\<not> list_ex (\<lambda>(oid, c). commit_parents c = [1, 2]) (odb ?r)"
    by (auto simp: example_defs list_ex_iff)
next
  show "executeMerge spec_engine (handle ''refs/heads/main'' 1)
        (Some (handle ''refs/heads/feature'' 2)) diverged_repo =
      (Inr (), diverged_repo
         \<lparr>odb := odb diverged_repo @
            [(3, \<lparr>commit_tree = [(''f.txt'', ''x''), (''g.txt'', ''y'')], commit_parents = [1],
                  commit_message = ''Merged branch via libgit2''\<rparr>)],
          refs := [(''refs/heads/main'', 3), (''refs/heads/feature'', 2)]\<rparr>)"
    by code_simp
qed

subsection \<open>Claim C2: the fast-forward moves no branch\<close>

text \<open>
  Claim C2 says that merging a branch that is ahead fast-forwards: the current
  branch then points at the target's tip. With \<^verbatim>\<open>main\<close> at commit 0 and
  \<^verbatim>\<open>feature\<close> at commit 1, the analysis reports a fast-forward and
  \<^verbatim>\<open>performFastforward\<close> sets \<^verbatim>\<open>HEAD\<close> to the current branch and checks it out;
  no call moves the reference, so \<^verbatim>\<open>main\<close> still points at commit 0 afterwards,
  whatever the engine does. With the engine of the examples the merge returns
  normally and the repository is exactly what it was.
\<close>

theorem behind_merge_leaves_branch_unmoved:
  "map_of (refs (snd (executeMerge E (handle ''refs/heads/main'' 0)
                        (Some (handle ''refs/heads/feature'' 1)) behind_repo))) ''refs/heads/main''
     = Some 0
   \<and> executeMerge spec_engine (handle ''refs/heads/main'' 0)
        (Some (handle ''refs/heads/feature'' 1)) behind_repo = (Inr (), behind_repo)"
proof
  have ff: "performFastforward E (handle ''refs/heads/main'' 0)
              (Some (handle ''refs/heads/feature'' 1)) behind_repo =
            (case git_checkout_head E behind_repo of
               None \<Rightarrow> (Inl (runtime_error ''Fast-forward checkout failed: ''), behind_repo)
             | Some iw \<Rightarrow> (Inr True, write_index_workdir behind_repo iw))"
    by (simp add: performFastforward_def getLastCommit_def call_defs example_defs
        split: option.splits)
  show "map_of (refs (snd (executeMerge E (handle ''refs/heads/main'' 0)
                        (Some (handle ''refs/heads/feature'' 1)) behind_repo))) ''refs/heads/main''
     = Some 0"
    unfolding executeMerge_cases ff
    by (simp add: behind_repo_def write_index_workdir_def split: option.splits)
next
  show "executeMerge spec_engine (handle ''refs/heads/main'' 0)
        (Some (handle ''refs/heads/feature'' 1)) behind_repo = (Inr (), behind_repo)"
    by code_simp
qed

subsection \<open>Claim C3: a conflicted merge throws\<close>

text \<open>
  Claim C3, as the code has it: when the index holds conflict entries after the
  engine's merge, \<^verbatim>\<open>executeMerge\<close> creates no commit and rolls nothing back; the
  repository it leaves is the one the engine's merge left, with the conflict
  entries in the index. The conflict is not a result of its own: the method
  throws \<^verbatim>\<open>std::runtime_error("Merge conflicts detected.")\<close>, as for any other
  failure, and names no path.
\<close>

theorem executeMerge_conflict_throws:
  assumes "performFastforward E this (Some tb) r = (Inr False, r1)"
      and "git_merge E r1 = Some iw"
      and "git_index_has_conflicts (fst iw)"
  shows "executeMerge E this (Some tb) r =
           (Inl (runtime_error ''Merge conflicts detected.''), r\<lparr>index := fst iw, workdir := snd iw\<rparr>)
         \<and> odb (snd (executeMerge E this (Some tb) r)) = odb r
         \<and> refs (snd (executeMerge E this (Some tb) r)) = refs r
         \<and> git_index_has_conflicts (index (snd (executeMerge E this (Some tb) r)))"
proof -
  from assms(1) have r1: "r1 = r" by (rule performFastforward_False)
  have "executeMergeCommit E this r =
          (Inl (runtime_error ''Merge conflicts detected.''), write_index_workdir r iw)"
    using assms(2,3) unfolding r1
    by (simp add: executeMergeCommit_def Let_def git_repository_index_def)
  with assms(1) have "executeMerge E this (Some tb) r =
      (Inl (runtime_error ''Merge conflicts detected.''), r\<lparr>index := fst iw, workdir := snd iw\<rparr>)"
    by (simp add: executeMerge_cases write_index_workdir_def)
  with assms(3) show ?thesis by simp
qed

theorem executeMerge_conflict_throws_witness:
  "executeMerge conflict_engine (handle ''refs/heads/main'' 1)
     (Some (handle ''refs/heads/feature'' 2)) conflict_repo =
   (Inl (runtime_error ''Merge conflicts detected.''), conflict_repo\<lparr>index := conflict_index\<rparr>)
   \<and> odb (snd (executeMerge conflict_engine (handle ''refs/heads/main'' 1)
               (Some (handle ''refs/heads/feature'' 2)) conflict_repo)) = odb conflict_repo
   \<and> git_index_has_conflicts (index (snd (executeMerge conflict_engine
        (handle ''refs/heads/main'' 1) (Some (handle ''refs/heads/feature'' 2)) conflict_repo)))"
proof -
  have 1: "performFastforward conflict_engine (handle ''refs/heads/main'' 1)
             (Some (handle ''refs/heads/feature'' 2)) conflict_repo = (Inr False, conflict_repo)"
    by code_simp
  have 2: "git_merge conflict_engine conflict_repo = Some (conflict_index, workdir conflict_repo)"
    by (simp add: conflict_engine_def)
  have 3: "git_index_has_conflicts (fst (conflict_index, workdir conflict_repo))"
    by code_simp
  from executeMerge_conflict_throws [OF 1 2 3] show ?thesis by auto
qed

text \<open>
  The claim has the conflicted outcome returned as a result. With an engine that
  finds the conflict on \<^verbatim>\<open>f.txt\<close>, the method does not return normally: it
  throws.
\<close>

theorem executeMerge_conflict_not_a_result_counterexample:
  "fst (executeMerge conflict_engine (handle ''refs/heads/main'' 1)
          (Some (handle ''refs/heads/feature'' 2)) conflict_repo)
     = Inl (runtime_error ''Merge conflicts detected.'')
   \<and> fst (executeMerge conflict_engine (handle ''refs/heads/main'' 1)
          (Some (handle ''refs/heads/feature'' 2)) conflict_repo) \<noteq> Inr ()"
  by code_simp

subsection \<open>Claim C4: a conflict our side deleted is not listed\<close>

text \<open>
  What \<^verbatim>\<open>getConflictingFiles\<close> lists, for every index: exactly the paths that
  have an entry of our side (stage 2), each of them a conflicting path. The loop
  reads the path from \<^verbatim>\<open>ours\<close> only, behind a null test, so a conflict without
  an entry of ours contributes nothing.
\<close>

lemma getConflictingFiles_lists_ours_paths:
  "\<exists>files. getConflictingFiles this r = (Inr files, r) \<and>
           set files = ours_paths (index r) \<and>
           ours_paths (index r) \<subseteq> conflict_paths (index r)"
proof -
  have "getConflictingFiles this r = (Inr (conflict_loop (index r) []), r)"
    by (simp add: getConflictingFiles_def git_repository_index_def
        git_index_conflict_iterator_new_def)
  moreover have "set (conflict_loop (index r) []) = ours_paths (index r)"
    using conflict_loop_set [of "index r" "[]"] by simp
  moreover have "ours_paths (index r) \<subseteq> conflict_paths (index r)"
    by (auto simp: ours_paths_def conflict_paths_def git_index_entry_is_conflict_def)
  ultimately show ?thesis by blast
qed

text \<open>
  Claim C4 says that the paths reported for a conflicted merge are exactly the
  conflicting paths, also when one side deleted the file. \<^verbatim>\<open>main\<close> deleted
  \<^verbatim>\<open>f.txt\<close> and \<^verbatim>\<open>feature\<close> changed it: the merge stops with "Merge conflicts
  detected.", which names no path, and leaves the ancestor and their entry of
  \<^verbatim>\<open>f.txt\<close> in the index. There \<^verbatim>\<open>git_index_has_conflicts\<close> holds and
  \<^verbatim>\<open>f.txt\<close> is the conflicting path, and yet \<^verbatim>\<open>getConflictingFiles\<close> returns
  the empty list, which \<^verbatim>\<open>executeMerge\<close> itself reads as no conflict.
\<close>

theorem deleted_by_us_conflict_not_listed:
  "executeMerge deleted_by_us_engine (handle ''refs/heads/main'' 1)
     (Some (handle ''refs/heads/feature'' 2)) deleted_by_us_repo =
     (Inl (runtime_error ''Merge conflicts detected.''),
      deleted_by_us_repo\<lparr>index := deleted_by_us_index, workdir := [(''f.txt'', ''w'')]\<rparr>)
   \<and> git_index_has_conflicts deleted_by_us_index
   \<and> conflict_paths deleted_by_us_index = {''f.txt''}
   \<and> getConflictingFiles (handle ''refs/heads/main'' 1)
        (deleted_by_us_repo\<lparr>index := deleted_by_us_index, workdir := [(''f.txt'', ''w'')]\<rparr>) =
       (Inr [], deleted_by_us_repo\<lparr>index := deleted_by_us_index, workdir := [(''f.txt'', ''w'')]\<rparr>)"
proof (intro conjI)
  show "executeMerge deleted_by_us_engine (handle ''refs/heads/main'' 1)
     (Some (handle ''refs/heads/feature'' 2)) deleted_by_us_repo =
     (Inl (runtime_error ''Merge conflicts detected.''),
      deleted_by_us_repo\<lparr>index := deleted_by_us_index, workdir := [(''f.txt'', ''w'')]\<rparr>)"
    by code_simp
  show "git_index_has_conflicts deleted_by_us_index"
    by code_simp
  show "conflict_paths deleted_by_us_index = {''f.txt''}"
    by (simp add: conflict_paths_def deleted_by_us_index_def git_index_entry_is_conflict_def)
  show "getConflictingFiles (handle ''refs/heads/main'' 1)
        (deleted_by_us_repo\<lparr>index := deleted_by_us_index, workdir := [(''f.txt'', ''w'')]\<rparr>) =
       (Inr [], deleted_by_us_repo\<lparr>index := deleted_by_us_index, workdir := [(''f.txt'', ''w'')]\<rparr>)"
    by code_simp
qed

subsection \<open>Claim C5: merging a contained branch is no no-op\<close>

text \<open>
  Claim C5 says that merging a branch that is already contained in the current
  one (or the current branch itself) changes nothing and succeeds. With \<^verbatim>\<open>main\<close>
  at commit 1 and \<^verbatim>\<open>feature\<close> at its parent 0, the analysis reports
  \<^verbatim>\<open>UP_TO_DATE\<close>, which has no fast-forward bit, so \<^verbatim>\<open>executeMerge\<close> goes on to
  \<^verbatim>\<open>executeMergeCommit\<close>: for every engine the result is not the normal return
  with the repository unchanged. With the engine of the examples a new commit
  with the parent 1 is created and \<^verbatim>\<open>main\<close> moves to it.
\<close>

theorem ahead_merge_is_no_noop:
  "executeMerge E (handle ''refs/heads/main'' 1) (Some (handle ''refs/heads/feature'' 0)) ahead_repo
     \<noteq> (Inr (), ahead_repo)
   \<and> executeMerge E (handle ''refs/heads/main'' 1) (Some (handle ''refs/heads/main'' 1)) ahead_repo
     \<noteq> (Inr (), ahead_repo)
   \<and> executeMerge spec_engine (handle ''refs/heads/main'' 1)
        (Some (handle ''refs/heads/feature'' 0)) ahead_repo =
      (Inr (), ahead_repo
         \<lparr>odb := odb ahead_repo @
            [(2, \<lparr>commit_tree = [(''f.txt'', ''x''), (''g.txt'', ''y'')], commit_parents = [1],
                  commit_message = ''Merged branch via libgit2''\<rparr>)],
          refs := [(''refs/heads/main'', 2), (''refs/heads/feature'', 0)]\<rparr>)"
proof -
  have commit: "executeMergeCommit E this ahead_repo \<noteq> (Inr u, ahead_repo)" for this u
    using executeMergeCommit_Inr [of E this ahead_repo u ahead_repo]
    by (auto simp: write_ref_def write_index_workdir_def ahead_repo_def
        dest!: arg_cong [where f = odb] split: head_target.splits)
  have a: "executeMerge E (handle ''refs/heads/main'' 1) (Some tb) ahead_repo \<noteq> (Inr (), ahead_repo)"
    if "performFastforward E (handle ''refs/heads/main'' 1) (Some tb) ahead_repo = (Inr False, ahead_repo)"
    for tb
    unfolding executeMerge_cases that using commit
    by (auto split: prod.splits sum.splits)
  have c: "executeMerge spec_engine (handle ''refs/heads/main'' 1)
        (Some (handle ''refs/heads/feature'' 0)) ahead_repo =
      (Inr (), ahead_repo
         \<lparr>odb := odb ahead_repo @
            [(2, \<lparr>commit_tree = [(''f.txt'', ''x''), (''g.txt'', ''y'')], commit_parents = [1],
                  commit_message = ''Merged branch via libgit2''\<rparr>)],
          refs := [(''refs/heads/main'', 2), (''refs/heads/feature'', 0)]\<rparr>)"
    by code_simp
  show ?thesis using a [OF ahead_ff] a [OF ahead_ff_self] c by blast
qed

subsection \<open>Claim C6: the last commit is the one of construction time\<close>

text \<open>
  Claim C6, as the code has it: \<^verbatim>\<open>getLastCommit\<close> returns the commit the
  reference pointed at when the handle was constructed. It reads the cached field
  and takes no repository state, so nothing that happens to the reference later
  can change its result.
\<close>

theorem getLastCommit_is_construction_snapshot:
  "create (Some rf) r = Inr h \<Longrightarrow> getLastCommit h = Some (ref_target rf)"
  by (auto simp: create_def getLastCommit_def git_reference_peel_def git_commit_lookup_def
      split: option.splits)

theorem getLastCommit_is_construction_snapshot_witness:
  "create (Some \<lparr>ref_name = ''refs/heads/main'', ref_target = 1\<rparr>) diverged_repo
     = Inr (handle ''refs/heads/main'' 1)
   \<and> getLastCommit (handle ''refs/heads/main'' 1) = Some 1"
proof -
  have c: "create (Some \<lparr>ref_name = ''refs/heads/main'', ref_target = 1\<rparr>) diverged_repo
     = Inr (handle ''refs/heads/main'' 1)"
    by code_simp
  from getLastCommit_is_construction_snapshot [OF c] c show ?thesis by simp
qed

text \<open>
  The claim has the result follow the reference. A handle of \<^verbatim>\<open>main\<close> is
  constructed at commit 1; its own merge commit then moves \<^verbatim>\<open>main\<close> to commit 3;
  \<^verbatim>\<open>getLastCommit\<close> still answers commit 1.
\<close>

theorem getLastCommit_stale_counterexample:
  "create (Some \<lparr>ref_name = ''refs/heads/main'', ref_target = 1\<rparr>) diverged_repo
     = Inr (handle ''refs/heads/main'' 1)
   \<and> fst (executeMergeCommit spec_engine (handle ''refs/heads/main'' 1) diverged_repo) = Inr ()
   \<and> branch_tip (snd (executeMergeCommit spec_engine (handle ''refs/heads/main'' 1) diverged_repo))
        (handle ''refs/heads/main'' 1) = Some 3
   \<and> getLastCommit (handle ''refs/heads/main'' 1) = Some 1"
  by code_simp

subsection \<open>Claim C7: a failed checkout keeps the moved HEAD\<close>

text \<open>
  Claim C7, as the code has it: \<^verbatim>\<open>checkout\<close> first sets \<^verbatim>\<open>HEAD\<close> and then
  asks the engine to check it out. When the second call fails the method throws
  "Checkout failed" and the repository is the one the first call left: \<^verbatim>\<open>HEAD\<close>
  names the target branch, while the index, the working directory and the
  references are what they were. The fast-forward path of \<^verbatim>\<open>executeMerge\<close> has
  the same two steps and also undoes nothing when the second fails.
\<close>

theorem checkout_failure_keeps_moved_HEAD:
  "(branch_ref tb = Some rf \<and>
    git_repository_set_head r (Some (ref_name rf)) = Some r1 \<and>
    git_checkout_head E r1 = None \<longrightarrow>
      checkout E this (Some tb) r = (Inl (runtime_error ''Checkout failed: ''), r1) \<and>
      index r1 = index r \<and> workdir r1 = workdir r \<and> refs r1 = refs r \<and>
      (git_reference_is_branch (ref_name rf) \<longrightarrow> HEAD r1 = Symbolic (ref_name rf)))
   \<and>
   (getLastCommit tb = Some targetCommit \<and>
    git_annotated_commit_lookup r targetCommit = Some annotatedTarget \<and>
    git_merge_analysis r annotatedTarget = Some analysis \<and>
    analysis AND GIT_MERGE_ANALYSIS_FASTFORWARD \<noteq> 0 \<and>
    git_repository_set_head r (git_reference_name (branch_ref this)) = Some r2 \<and>
    git_checkout_head E r2 = None \<longrightarrow>
      executeMerge E this (Some tb) r =
        (Inl (runtime_error ''Fast-forward checkout failed: ''), r2) \<and>
      index r2 = index r \<and> workdir r2 = workdir r \<and> refs r2 = refs r)"
proof (intro conjI impI)
  assume a: "branch_ref tb = Some rf \<and>
    git_repository_set_head r (Some (ref_name rf)) = Some r1 \<and>
    git_checkout_head E r1 = None"
  then show "checkout E this (Some tb) r = (Inl (runtime_error ''Checkout failed: ''), r1)"
    by (simp add: checkout_def git_reference_name_def)
  from a git_repository_set_head_frame [of r "Some (ref_name rf)" r1]
  show "index r1 = index r" "workdir r1 = workdir r" "refs r1 = refs r" by simp_all
  assume "git_reference_is_branch (ref_name rf)"
  with a git_repository_set_head_branch [of r "ref_name rf" r1]
  show "HEAD r1 = Symbolic (ref_name rf)" by blast
next
  assume b: "getLastCommit tb = Some targetCommit \<and>
    git_annotated_commit_lookup r targetCommit = Some annotatedTarget \<and>
    git_merge_analysis r annotatedTarget = Some analysis \<and>
    analysis AND GIT_MERGE_ANALYSIS_FASTFORWARD \<noteq> 0 \<and>
    git_repository_set_head r (git_reference_name (branch_ref this)) = Some r2 \<and>
    git_checkout_head E r2 = None"
  then have "performFastforward E this (Some tb) r =
      (Inl (runtime_error ''Fast-forward checkout failed: ''), r2)"
    by (simp add: performFastforward_def)
  then show "executeMerge E this (Some tb) r =
      (Inl (runtime_error ''Fast-forward checkout failed: ''), r2)"
    by (simp add: executeMerge_cases)
  from b git_repository_set_head_frame [of r "git_reference_name (branch_ref this)" r2]
  show "index r2 = index r" "workdir r2 = workdir r" "refs r2 = refs r" by simp_all
qed

theorem checkout_failure_keeps_moved_HEAD_witness:
  "checkout spec_engine (handle ''refs/heads/main'' 0) (Some (handle ''refs/heads/feature'' 1))
     (behind_repo\<lparr>workdir := [(''f.txt'', ''local'')]\<rparr>) =
     (Inl (runtime_error ''Checkout failed: ''),
      behind_repo\<lparr>workdir := [(''f.txt'', ''local'')], HEAD := Symbolic ''refs/heads/feature''\<rparr>)
   \<and> executeMerge spec_engine (handle ''refs/heads/main'' 0) (Some (handle ''refs/heads/feature'' 1))
       (behind_repo\<lparr>workdir := [(''f.txt'', ''local'')]\<rparr>) =
     (Inl (runtime_error ''Fast-forward checkout failed: ''),
      behind_repo\<lparr>workdir := [(''f.txt'', ''local'')]\<rparr>)"
proof -
  let ?me = "handle ''refs/heads/main'' 0"
  let ?tb = "handle ''refs/heads/feature'' 1"
  let ?rf = "\<lparr>ref_name = ''refs/heads/feature'', ref_target = 1\<rparr>"
  let ?r = "behind_repo\<lparr>workdir := [(''f.txt'', ''local'')]\<rparr>"
  let ?r1 = "behind_repo\<lparr>workdir := [(''f.txt'', ''local'')], HEAD := Symbolic ''refs/heads/feature''\<rparr>"
  have 1: "branch_ref ?tb = Some ?rf" by (simp add: handle_def)
  have 2: "git_repository_set_head ?r (Some (ref_name ?rf)) = Some ?r1" by code_simp
  have 3: "git_checkout_head spec_engine ?r1 = None" by code_simp
  have 5: "getLastCommit ?tb = Some 1" by code_simp
  have 6: "git_annotated_commit_lookup ?r 1 = Some 1" by code_simp
  have 7: "git_merge_analysis ?r 1 = Some 5" by code_simp
  have 8: "(5 :: 32 word) AND GIT_MERGE_ANALYSIS_FASTFORWARD \<noteq> 0" by code_simp
  have 9: "git_repository_set_head ?r (git_reference_name (branch_ref ?me)) = Some ?r"
    by code_simp
  have 10: "git_checkout_head spec_engine ?r = None" by code_simp
  from checkout_failure_keeps_moved_HEAD
    [where tb = ?tb and rf = ?rf and r = ?r and ?r1.0 = ?r1 and E = spec_engine and this = ?me
       and targetCommit = 1 and annotatedTarget = 1 and analysis = 5 and ?r2.0 = ?r]
    1 2 3 5 6 7 8 9 10
  show ?thesis by blast
qed

text \<open>
  The claim allows no state with \<^verbatim>\<open>HEAD\<close> on the target branch and the index
  and working tree not updated. Checking out \<^verbatim>\<open>feature\<close> over a local change
  fails and leaves exactly that: \<^verbatim>\<open>HEAD\<close> went from \<^verbatim>\<open>main\<close> to \<^verbatim>\<open>feature\<close>,
  whose tree holds \<^verbatim>\<open>f.txt\<close> with \<^verbatim>\<open>z\<close>, and the index still is the one of
  \<^verbatim>\<open>main\<close>.
\<close>

theorem checkout_half_updated_counterexample:
  "checkout spec_engine (handle ''refs/heads/main'' 1) (Some (handle ''refs/heads/feature'' 2))
     dirty_repo =
     (Inl (runtime_error ''Checkout failed: ''), dirty_repo\<lparr>HEAD := Symbolic ''refs/heads/feature''\<rparr>)
   \<and> HEAD dirty_repo = Symbolic ''refs/heads/main''
   \<and> head_tree (dirty_repo\<lparr>HEAD := Symbolic ''refs/heads/feature''\<rparr>) = Some [(''f.txt'', ''z'')]
   \<and> index (dirty_repo\<lparr>HEAD := Symbolic ''refs/heads/feature''\<rparr>) =
       clean_index [(''f.txt'', ''x''), (''g.txt'', ''y'')]"
  by code_simp

subsection \<open>Claim C8: a dirty working tree stops the checkout\<close>

text \<open>
  Claim C8, for a checkout engine that works as the specification says: when a
  tracked file has a local modification that the stage-0 entries of the index do
  not hold, \<^verbatim>\<open>checkout\<close> throws "Checkout failed" once \<^verbatim>\<open>HEAD\<close> is set, and the
  working directory and the index are not written. The method has no force flag:
  the strategy is always \<^verbatim>\<open>GIT_CHECKOUT_SAFE\<close>.
\<close>

theorem checkout_refuses_dirty_working_tree:
  assumes "git_checkout_head E = checkoutTree_safe"
      and "dirty_working_tree r"
      and "branch_ref tb = Some rf"
      and "git_repository_set_head r (Some (ref_name rf)) = Some r1"
  shows "checkout E this (Some tb) r = (Inl (runtime_error ''Checkout failed: ''), r1) \<and>
         workdir r1 = workdir r \<and> index r1 = index r"
proof -
  from git_repository_set_head_frame [OF assms(4)]
  have fr: "workdir r1 = workdir r" "index r1 = index r" by simp_all
  with assms(2) have "dirty_working_tree r1" by (simp add: dirty_working_tree_def)
  with assms(1) have "git_checkout_head E r1 = None" by (simp add: checkoutTree_safe_def)
  with assms(3,4) fr show ?thesis by (simp add: checkout_def git_reference_name_def)
qed

theorem checkout_refuses_dirty_working_tree_witness:
  "checkout spec_engine (handle ''refs/heads/main'' 1) (Some (handle ''refs/heads/feature'' 2))
     dirty_repo =
     (Inl (runtime_error ''Checkout failed: ''), dirty_repo\<lparr>HEAD := Symbolic ''refs/heads/feature''\<rparr>)
   \<and> workdir (dirty_repo\<lparr>HEAD := Symbolic ''refs/heads/feature''\<rparr>) = workdir dirty_repo
   \<and> index (dirty_repo\<lparr>HEAD := Symbolic ''refs/heads/feature''\<rparr>) = index dirty_repo"
proof -
  have 1: "git_checkout_head spec_engine = checkoutTree_safe" by (simp add: spec_engine_def)
  have 2: "dirty_working_tree dirty_repo" by code_simp
  have 3: "branch_ref (handle ''refs/heads/feature'' 2)
             = Some \<lparr>ref_name = ''refs/heads/feature'', ref_target = 2\<rparr>"
    by (simp add: handle_def)
  have 4: "git_repository_set_head dirty_repo
             (Some (ref_name \<lparr>ref_name = ''refs/heads/feature'', ref_target = 2\<rparr>))
           = Some (dirty_repo\<lparr>HEAD := Symbolic ''refs/heads/feature''\<rparr>)" by code_simp
  from checkout_refuses_dirty_working_tree [OF 1 2 3 4] show ?thesis .
qed

subsection \<open>Claim C9: the merge commit is made on whatever HEAD is\<close>

text \<open>
  Claim C9: whenever \<^verbatim>\<open>executeMergeCommit\<close> creates its commit, the commit has
  exactly one parent, the commit \<^verbatim>\<open>HEAD\<close> resolves to at that moment; it is
  appended to the object database and \<^verbatim>\<open>HEAD\<close> (the branch it names, or the
  detached \<^verbatim>\<open>HEAD\<close> itself) is made to point at it. The branch object the
  method is called on plays no part: any other handle gives the same result.
\<close>

theorem executeMergeCommit_parent_is_HEAD:
  assumes "executeMergeCommit E this r = (Inr u, r')"
  shows "\<exists>headRef c.
           git_repository_head r = Some headRef \<and>
           commit_parents c = [ref_target headRef] \<and>
           odb r' = odb r @ [(new_oid (odb r), c)] \<and>
           current_tip r' ''HEAD'' = Some (new_oid (odb r)) \<and>
           executeMergeCommit E other r = (Inr u, r')"
proof -
  from executeMergeCommit_Inr [OF assms] obtain iw headRef where
    h: "git_repository_head r = Some headRef"
    and r': "r' = write_ref ((write_index_workdir r iw)\<lparr>odb := odb r @
                  [(new_oid (odb r),
                    \<lparr>commit_tree = map (\<lambda>e. (entry_path e, entry_blob e)) (fst iw),
                     commit_parents = [ref_target headRef],
                     commit_message = ''Merged branch via libgit2''\<rparr>)]\<rparr>) ''HEAD'' (new_oid (odb r))"
    by blast
  have same: "executeMergeCommit E other r = executeMergeCommit E this r"
    by (simp add: executeMergeCommit_def)
  show ?thesis
    using h r' same assms by (auto simp: current_tip_write_ref)
qed

text \<open>
  The witness calls the method on a handle of \<^verbatim>\<open>feature\<close> while \<^verbatim>\<open>HEAD\<close> is
  \<^verbatim>\<open>main\<close>: the commit is made on \<^verbatim>\<open>main\<close>.
\<close>

theorem executeMergeCommit_parent_is_HEAD_witness:
  "\<exists>headRef c.
     git_repository_head diverged_repo = Some headRef \<and>
     commit_parents c = [ref_target headRef] \<and>
     odb (snd (executeMergeCommit spec_engine (handle ''refs/heads/feature'' 2) diverged_repo)) =
       odb diverged_repo @ [(new_oid (odb diverged_repo), c)] \<and>
     current_tip (snd (executeMergeCommit spec_engine (handle ''refs/heads/feature'' 2) diverged_repo))
       ''HEAD'' = Some (new_oid (odb diverged_repo)) \<and>
     executeMergeCommit spec_engine (handle ''refs/heads/main'' 1) diverged_repo =
       (Inr (), snd (executeMergeCommit spec_engine (handle ''refs/heads/feature'' 2) diverged_repo))"
proof -
  have "fst (executeMergeCommit spec_engine (handle ''refs/heads/feature'' 2) diverged_repo) = Inr ()"
    by code_simp
  then have "executeMergeCommit spec_engine (handle ''refs/heads/feature'' 2) diverged_repo =
    (Inr (), snd (executeMergeCommit spec_engine (handle ''refs/heads/feature'' 2) diverged_repo))"
    by (metis prod.collapse)
  from executeMergeCommit_parent_is_HEAD [OF this] show ?thesis .
qed

subsection \<open>Claim C10: no conflict is left to report after the merge commit\<close>

text \<open>
  Claim C10: when \<^verbatim>\<open>executeMergeCommit\<close> returns normally the index has no
  conflict entry, so \<^verbatim>\<open>getConflictingFiles\<close> returns the empty list there; hence
  \<^verbatim>\<open>executeMerge\<close> never throws its "Merge completed with conflicts" error,
  whatever the count in the message.
\<close>

theorem conflict_report_unreachable:
  "(executeMergeCommit E this r = (Inr u, r') \<longrightarrow>
      \<not> git_index_has_conflicts (index r') \<and> getConflictingFiles this r' = (Inr [], r'))
   \<and> fst (executeMerge E this target r) \<noteq>
       Inl (runtime_error (''Merge completed with conflicts. Files in conflict: '' @ to_string n))"
proof
  show "executeMergeCommit E this r = (Inr u, r') \<longrightarrow>
      \<not> git_index_has_conflicts (index r') \<and> getConflictingFiles this r' = (Inr [], r')"
    using executeMergeCommit_clean getConflictingFiles_clean by blast
next
  show "fst (executeMerge E this target r) \<noteq>
       Inl (runtime_error (''Merge completed with conflicts. Files in conflict: '' @ to_string n))"
  proof
    assume a: "fst (executeMerge E this target r) =
       Inl (runtime_error (''Merge completed with conflicts. Files in conflict: '' @ to_string n))"
    then have "executeMerge E this target r =
       (Inl (runtime_error (''Merge completed with conflicts. Files in conflict: '' @ to_string n)),
        snd (executeMerge E this target r))"
      by (metis prod.collapse)
    from executeMerge_no_report [OF this] show False by blast
  qed
qed

theorem conflict_report_unreachable_witness:
  "executeMergeCommit spec_engine (handle ''refs/heads/main'' 1) diverged_repo =
     (Inr (), snd (executeMergeCommit spec_engine (handle ''refs/heads/main'' 1) diverged_repo))
   \<and> getConflictingFiles (handle ''refs/heads/main'' 1)
        (snd (executeMergeCommit spec_engine (handle ''refs/heads/main'' 1) diverged_repo)) =
       (Inr [], snd (executeMergeCommit spec_engine (handle ''refs/heads/main'' 1) diverged_repo))"
proof -
  have "fst (executeMergeCommit spec_engine (handle ''refs/heads/main'' 1) diverged_repo) = Inr ()"
    by code_simp
  then have h: "executeMergeCommit spec_engine (handle ''refs/heads/main'' 1) diverged_repo =
    (Inr (), snd (executeMergeCommit spec_engine (handle ''refs/heads/main'' 1) diverged_repo))"
    by (metis prod.collapse)
  with conflict_report_unreachable
    [of spec_engine "handle ''refs/heads/main'' 1" diverged_repo "()"
        "snd (executeMergeCommit spec_engine (handle ''refs/heads/main'' 1) diverged_repo)"]
  show ?thesis by blast
qed

end
